theory Spec2Isabelle
  imports Complex_Main
begin

section \<open>Python values the orchestrator works with\<close>

text \<open>
  The exceptions that the two source files raise, or that Python raises on their behalf.
  The constructors keep Python's class names; the ones raised with a literal message in the
  source carry that message.
\<close>

datatype error =
    AssertionError string
  | ValueError string
  | TypeError string
  | AttributeError string
  | KeyError string
  | IndexError
  | FileNotFoundError string
  | UnpicklingError
  | BackendError string

text \<open>
  A Python \<open>dict\<close> with string keys: an association list in insertion order whose keys are
  pairwise distinct. \<open>k in d\<close>, \<open>d[k]\<close> (raising \<open>KeyError\<close>) and \<open>d[k] = v\<close> (in place for
  a key that is present, appended otherwise) are written out.
\<close>

type_synonym 'v dict = "(string \<times> 'v) list"

definition dict_keys :: "'v dict \<Rightarrow> string list" where
  "dict_keys d = map fst d"

definition dict_contains :: "string \<Rightarrow> 'v dict \<Rightarrow> bool" where
  "dict_contains k d = (k \<in> set (dict_keys d))"

definition dict_getitem :: "'v dict \<Rightarrow> string \<Rightarrow> error + 'v" where
  "dict_getitem d k = (case map_of d k of None \<Rightarrow> Inl (KeyError k) | Some v \<Rightarrow> Inr v)"

fun dict_setitem :: "'v dict \<Rightarrow> string \<Rightarrow> 'v \<Rightarrow> 'v dict" where
  "dict_setitem [] k v = [(k, v)]"
| "dict_setitem ((k', v') # d) k v =
     (if k' = k then (k, v) # d else (k', v') # dict_setitem d k v)"

text \<open>
  A list comprehension whose body may raise: the first exception ends the comprehension.
\<close>

fun comprehension :: "('a \<Rightarrow> error + 'b) \<Rightarrow> 'a list \<Rightarrow> error + 'b list" where
  "comprehension f [] = Inr []"
| "comprehension f (x # xs) =
     (case f x of
        Inl e \<Rightarrow> Inl e
      | Inr y \<Rightarrow> (case comprehension f xs of Inl e \<Rightarrow> Inl e | Inr ys \<Rightarrow> Inr (y # ys)))"

text \<open>
  \<open>xs.sort(reverse=True, key=f)\<close>: CPython reverses the list, sorts it stably in ascending
  order of the key, and reverses it again, so that elements with equal keys keep their
  original order. \<open>xs[:k]\<close> for an integer \<open>k\<close>: the first \<open>k\<close> elements, and for a
  negative \<open>k\<close> all but the last \<open>-k\<close>.
\<close>

definition sort_reverse :: "('a \<Rightarrow> 'k::linorder) \<Rightarrow> 'a list \<Rightarrow> 'a list" where
  "sort_reverse f xs = rev (sort_key f (rev xs))"

definition slice_to :: "'a list \<Rightarrow> int \<Rightarrow> 'a list" where
  "slice_to xs k = (if 0 \<le> k then take (nat k) xs else take (length xs - nat (- k)) xs)"

section \<open>Embedding index and example retriever (auto\_model.py, lines 52--71)\<close>

text \<open>
  The embedding model (\<open>SentenceTransformer.encode\<close>) and \<open>util.cos_sim\<close> belong to an
  external library: \<open>encode\<close> is a function from strings to vectors of some type \<open>'v\<close>, and
  \<open>cos_sim\<close> a function from two vectors to a similarity in a linear order \<open>'s\<close> (the
  floating-point similarities, compared by \<open><\<close>, with no NaN among them).
\<close>

definition compute_icl_query_embeddings :: "(string \<Rightarrow> 'v) \<Rightarrow> string dict \<Rightarrow> 'v dict" where
  "compute_icl_query_embeddings encode icl_examples =
     fold (\<lambda>query icl_query_embeddings.
             dict_setitem icl_query_embeddings query (encode query))
          (dict_keys icl_examples) []"

definition get_top_k_icl_examples ::
  "(string \<Rightarrow> 'v) \<Rightarrow> ('v \<Rightarrow> 'v \<Rightarrow> 's::linorder) \<Rightarrow> 'v dict \<Rightarrow> string \<Rightarrow> int
     \<Rightarrow> error + ('s \<times> string) list" where
  "get_top_k_icl_examples encode cos_sim icl_query_embeddings query k =
     (let query_embedding = encode query in
      case comprehension
             (\<lambda>icl_query.
                case dict_getitem icl_query_embeddings icl_query of
                  Inl e \<Rightarrow> Inl e
                | Inr v \<Rightarrow> Inr (cos_sim v query_embedding, icl_query))
             (dict_keys icl_query_embeddings) of
        Inl e \<Rightarrow> Inl e
      | Inr icl_sims \<Rightarrow> Inr (slice_to (sort_reverse fst icl_sims) k))"

section \<open>Optimized-prompt loader (auto\_model.py, lines 73--91)\<close>

text \<open>
  The objects a pickled artifact deserializes to, as far as the loader looks into them:
  \<open>None\<close>, booleans, integers, strings, lists, and instances with an attribute dictionary.
\<close>

datatype pyobj =
    PNone
  | PBool bool
  | PInt int
  | PStr string
  | PList "pyobj list"
  | PObj "(string \<times> pyobj) list"

text \<open>
  \<open>obj.name\<close> for the attribute names the loader reads (\<open>terminal_node\<close>, \<open>state\<close>,
  \<open>system_prompt\<close>): an instance has the attribute if its dictionary has it, and the
  built-in types have none of them. \<open>obj[-1]\<close>: the last element of a list, the last
  character of a string, \<open>IndexError\<close> when empty, \<open>TypeError\<close> for what is not
  subscriptable.
\<close>

definition getattr :: "pyobj \<Rightarrow> string \<Rightarrow> error + pyobj" where
  "getattr obj name =
     (case obj of
        PObj attrs \<Rightarrow>
          (case map_of attrs name of None \<Rightarrow> Inl (AttributeError name) | Some v \<Rightarrow> Inr v)
      | _ \<Rightarrow> Inl (AttributeError name))"

definition getitem_last :: "pyobj \<Rightarrow> error + pyobj" where
  "getitem_last obj =
     (case obj of
        PList xs \<Rightarrow> (if xs = [] then Inl IndexError else Inr (last xs))
      | PStr s \<Rightarrow> (if s = [] then Inl IndexError else Inr (PStr [last s]))
      | _ \<Rightarrow> Inl (TypeError ''object is not subscriptable''))"

text \<open>Line 87: \<open>prompt_file.terminal_node.state[-1].system_prompt\<close>.\<close>

definition nested_system_prompt :: "pyobj \<Rightarrow> error + pyobj" where
  "nested_system_prompt prompt_file =
     (case getattr prompt_file ''terminal_node'' of
        Inl e \<Rightarrow> Inl e
      | Inr terminal_node \<Rightarrow>
          (case getattr terminal_node ''state'' of
             Inl e \<Rightarrow> Inl e
           | Inr state \<Rightarrow>
               (case getitem_last state of
                  Inl e \<Rightarrow> Inl e
                | Inr last_state \<Rightarrow> getattr last_state ''system_prompt'')))"

text \<open>Lines 86--89: the \<open>try\<close> with its bare \<open>except\<close>, which catches every exception.\<close>

definition try_nested_system_prompt :: "pyobj \<Rightarrow> pyobj" where
  "try_nested_system_prompt prompt_file =
     (case nested_system_prompt prompt_file of
        Inl e \<Rightarrow> prompt_file
      | Inr model_prompt \<Rightarrow> model_prompt)"

text \<open>
  The file system as the loader sees it: a path names no file, a file that \<open>pickle.load\<close>
  deserializes to an object, or a file that it rejects.
\<close>

datatype stored_file = Pickled pyobj | Garbage

definition pickle_load :: "(string \<Rightarrow> stored_file option) \<Rightarrow> string \<Rightarrow> error + pyobj" where
  "pickle_load fs path =
     (case fs path of
        None \<Rightarrow> Inl (FileNotFoundError path)
      | Some Garbage \<Rightarrow> Inl UnpicklingError
      | Some (Pickled obj) \<Rightarrow> Inr obj)"

text \<open>
  Line 81 applies the registry to the model name with call syntax,
  \<open>self.model_mapping(self.model.model_name)\<close>. The registry is a \<open>dict\<close>, and calling a
  \<open>dict\<close> raises \<open>TypeError\<close> whatever the argument is.
\<close>

definition dict_call :: "'v dict \<Rightarrow> string \<Rightarrow> error + 'v" where
  "dict_call d arg = Inl (TypeError ''dict object is not callable'')"

definition default_prompt :: string where
  "default_prompt = ''You are a helpful assistant''"

text \<open>
  The loader returns its result together with the paths of the files it has opened.
\<close>

definition load_optimized_prompt ::
  "string dict \<Rightarrow> (string \<Rightarrow> stored_file option) \<Rightarrow> string \<Rightarrow> (error + pyobj) \<times> string list" where
  "load_optimized_prompt model_mapping fs model_name =
     (if \<not> dict_contains model_name model_mapping then (Inr (PStr default_prompt), [])
      else
        case dict_call model_mapping model_name of
          Inl e \<Rightarrow> (Inl e, [])
        | Inr prompt_path \<Rightarrow>
            (case pickle_load fs prompt_path of
               Inl e \<Rightarrow> (Inl e, [prompt_path])
             | Inr prompt_file \<Rightarrow> (Inr (try_nested_system_prompt prompt_file), [prompt_path])))"

section \<open>Backends\<close>

record chat_message =
  role :: string
  content :: string

datatype stop_arg = StopStr string | StopList "string list"

datatype generated = Text string | Texts "string list"

subsection \<open>Hosted-API backend (openai\_model.py)\<close>

record openai_chat_model =
  model_name :: string
  api_key :: string
  timeout :: int

text \<open>
  The keyword arguments of \<open>client.chat.completions.create\<close> as line 60--71 pass them.
  Temperature and \<open>top_p\<close> are Python floats that the code only hands on; they are
  rationals here.
\<close>

record api_request =
  req_model :: string
  req_messages :: "chat_message list"
  req_temperature :: rat
  req_max_tokens :: int
  req_top_p :: rat
  req_n :: int
  req_stop :: "stop_arg option"
  req_response_format :: "string option"
  req_seed :: int
  req_extra :: "pyobj dict"

text \<open>
  The constructor reads the credential from the process environment. It returns the model
  (or the exception) together with the requests sent to the API, of which the constructor
  makes none: \<open>openai.OpenAI(timeout=...)\<close> only builds the client object.
\<close>

definition openai_init ::
  "(string \<Rightarrow> string option) \<Rightarrow> string \<Rightarrow> int
     \<Rightarrow> (error + openai_chat_model) \<times> api_request list" where
  "openai_init env name tmo =
     (case env ''OPENAI_API_KEY'' of
        None \<Rightarrow>
          (Inl (ValueError
             ''OPENAI_API_KEY not set, please run `export OPENAI_API_KEY=<your key>` to set it''),
           [])
      | Some API_KEY \<Rightarrow>
          (Inr \<lparr>model_name = name, api_key = API_KEY, timeout = tmo\<rparr>, []))"

text \<open>Lines 45--58: the messages sent, from the three optional arguments.\<close>

definition build_messages ::
  "string option \<Rightarrow> string option \<Rightarrow> chat_message list option \<Rightarrow> error + chat_message list" where
  "build_messages user_prompt system_prompt messages =
     (case messages of
        Some ms \<Rightarrow> Inr ms
      | None \<Rightarrow>
          (case user_prompt of
             None \<Rightarrow> Inl (AssertionError ''user_prompt is required if you do not pass messages'')
           | Some u \<Rightarrow>
               (case system_prompt of
                  Some s \<Rightarrow> Inr [\<lparr>role = ''system'', content = s\<rparr>, \<lparr>role = ''user'', content = u\<rparr>]
                | None \<Rightarrow> Inr [\<lparr>role = ''user'', content = u\<rparr>])))"

text \<open>
  \<open>**kwargs\<close> is a dictionary of extra keyword arguments. Python raises \<open>TypeError\<close> when a
  call receives a keyword twice, which happens at line 60 when \<open>kwargs\<close> holds one of the
  keywords written there.
\<close>

definition create_keywords :: "string list" where
  "create_keywords =
     [''model'', ''messages'', ''temperature'', ''max_tokens'', ''top_p'', ''n'', ''stop'',
      ''response_format'', ''seed'']"

definition repeats_keyword :: "string list \<Rightarrow> pyobj dict \<Rightarrow> bool" where
  "repeats_keyword names kwargs = list_ex (\<lambda>k. k \<in> set names) (dict_keys kwargs)"

text \<open>
  \<open>OpenAIChatModel.generate\<close>. The API client is the function \<open>client\<close> from a request to
  the contents of the choices of the response, or to the exception the call raises. The
  result comes with the requests sent.
\<close>

definition openai_generate ::
  "(api_request \<Rightarrow> error + string list) \<Rightarrow> openai_chat_model
     \<Rightarrow> string option \<Rightarrow> string option \<Rightarrow> chat_message list option
     \<Rightarrow> rat \<Rightarrow> rat \<Rightarrow> int \<Rightarrow> stop_arg option \<Rightarrow> int \<Rightarrow> bool \<Rightarrow> pyobj dict
     \<Rightarrow> (error + generated) \<times> api_request list" where
  "openai_generate client self user_prompt system_prompt messages temperature top_p
       max_new_tokens stop num_return_sequences json_output kwargs =
     (if \<not> (user_prompt \<noteq> None \<or> messages \<noteq> None)
      then (Inl (AssertionError
                   ''Either give both system_prompt and user_prompt or give messages''), [])
      else
        case build_messages user_prompt system_prompt messages of
          Inl e \<Rightarrow> (Inl e, [])
        | Inr ms \<Rightarrow>
            if repeats_keyword create_keywords kwargs
            then (Inl (TypeError ''got multiple values for keyword argument''), [])
            else
              let request =
                    \<lparr>req_model = model_name self,
                     req_messages = ms,
                     req_temperature = temperature,
                     req_max_tokens = max_new_tokens,
                     req_top_p = top_p,
                     req_n = num_return_sequences,
                     req_stop = stop,
                     req_response_format = (if json_output then Some ''json_object'' else None),
                     req_seed = 0,
                     req_extra = kwargs\<rparr>
              in case client request of
                   Inl e \<Rightarrow> (Inl e, [request])
                 | Inr choices \<Rightarrow>
                     (if num_return_sequences = 1
                      then (case choices of
                              [] \<Rightarrow> (Inl IndexError, [request])
                            | c # cs \<Rightarrow> (Inr (Text c), [request]))
                      else (Inr (Texts choices), [request])))"

subsection \<open>Self-hosted backend\<close>

text \<open>
  \<open>vllm_model.py\<close> is not among the sources. What the orchestrator uses of it is the
  tokenizer object and the call of \<open>generate\<close> at line 175, taken here as the function
  \<open>engine\<close> from the arguments of that call. A tokenizer is its attribute dictionary (an
  attribute holds \<open>None\<close> or a template string) and its \<open>apply_chat_template\<close>, called with
  \<open>tokenize=False\<close> and \<open>add_generation_prompt=True\<close>. Reading an attribute that the
  object does not have raises \<open>AttributeError\<close>.
\<close>

record hf_tokenizer =
  attributes :: "string option dict"
  apply_chat_template :: "chat_message list \<Rightarrow> string"

record vllm_model =
  vllm_model_name :: string
  tokenizer :: hf_tokenizer

record engine_request =
  eng_prompt :: string
  eng_temperature :: rat
  eng_top_p :: rat
  eng_max_new_tokens :: int
  eng_stop :: "stop_arg option"
  eng_extra :: "pyobj dict"

definition tokenizer_getattr :: "hf_tokenizer \<Rightarrow> string \<Rightarrow> error + string option" where
  "tokenizer_getattr tok name =
     (case map_of (attributes tok) name of
        None \<Rightarrow> Inl (AttributeError name)
      | Some v \<Rightarrow> Inr v)"

section \<open>Orchestrator (auto\_model.py)\<close>

datatype backend = OpenAIChatModel openai_chat_model | VLLMModel vllm_model

text \<open>
  The fields of \<open>AutoModel\<close> that \<open>generate\<close> reads. The constructor sets
  \<open>self.open_ai_model\<close> and \<open>self.model\<close> together (lines 35--40): the flag is true
  exactly when the model is an \<open>OpenAIChatModel\<close>, so the test of the flag at line 164 is
  the case distinction on the backend. \<open>optimized_prompt\<close> is the \<open>str\<close> that the loader
  is declared to return.
\<close>

record 'v auto_model =
  icl_examples :: "string dict"
  embedding_model :: "string \<Rightarrow> 'v"
  icl_query_embeddings :: "'v dict"
  model :: backend
  optimized_prompt :: string

text \<open>Lines 104--105: one block per retrieved example, appended to the prompt in order.\<close>

fun append_icl_blocks :: "string dict \<Rightarrow> ('s \<times> string) list \<Rightarrow> string \<Rightarrow> error + string" where
  "append_icl_blocks examples [] prompt = Inr prompt"
| "append_icl_blocks examples ((sim, icl_query) # rest) prompt =
     (case dict_getitem examples icl_query of
        Inl e \<Rightarrow> Inl e
      | Inr answer \<Rightarrow>
          append_icl_blocks examples rest
            (prompt @ ''\<newline>\<newline>#Query:\<newline>'' @ icl_query
                    @ ''\<newline>\<newline>#Answer:\<newline>'' @ answer))"

definition prepare_system_prompt ::
  "('v \<Rightarrow> 'v \<Rightarrow> 's::linorder) \<Rightarrow> 'v auto_model \<Rightarrow> bool \<Rightarrow> bool \<Rightarrow> int \<Rightarrow> string
     \<Rightarrow> error + string" where
  "prepare_system_prompt cos_sim self use_optimized_prompt optimized_icl num_optimized_icl
       user_query =
     (let prompt = (if use_optimized_prompt then optimized_prompt self else default_prompt)
      in if optimized_icl
         then (case get_top_k_icl_examples (embedding_model self) cos_sim
                      (icl_query_embeddings self) user_query num_optimized_icl of
                 Inl e \<Rightarrow> Inl e
               | Inr top_icl_queries \<Rightarrow>
                   append_icl_blocks (icl_examples self) top_icl_queries prompt)
         else Inr prompt)"

definition prepare_chat_llm_prompt :: "hf_tokenizer \<Rightarrow> string \<Rightarrow> string \<Rightarrow> string" where
  "prepare_chat_llm_prompt tok system_prompt user_prompt =
     apply_chat_template tok
       [\<lparr>role = ''system'', content = system_prompt\<rparr>,
        \<lparr>role = ''user'', content = user_prompt\<rparr>]"

text \<open>
  The call at line 165 fills the seven positional parameters of
  \<open>OpenAIChatModel.generate\<close> and the keywords \<open>num_return_sequences\<close> and \<open>stream\<close>; a
  \<open>kwargs\<close> that holds one of these names repeats an argument (\<open>TypeError\<close>). A
  \<open>json_output\<close> in \<open>kwargs\<close> binds the parameter of that name, read for its truth value.
\<close>

definition hosted_call_names :: "string list" where
  "hosted_call_names =
     [''user_prompt'', ''system_prompt'', ''messages'', ''temperature'', ''top_p'',
      ''max_new_tokens'', ''stop'', ''num_return_sequences'', ''stream'']"

definition truthy :: "pyobj \<Rightarrow> bool" where
  "truthy v =
     (case v of
        PNone \<Rightarrow> False
      | PBool b \<Rightarrow> b
      | PInt i \<Rightarrow> i \<noteq> 0
      | PStr s \<Rightarrow> s \<noteq> []
      | PList xs \<Rightarrow> xs \<noteq> []
      | PObj attrs \<Rightarrow> True)"

definition dict_remove :: "string \<Rightarrow> 'v dict \<Rightarrow> 'v dict" where
  "dict_remove k d = filter (\<lambda>kv. fst kv \<noteq> k) d"

datatype backend_call = ApiCall api_request | EngineCall engine_request

text \<open>
  \<open>AutoModel.generate\<close>, with the calls made to the backend. The \<open>assert\<close> of line 155 is
  taken as executed (Python run without \<open>-O\<close>).
\<close>

definition generate ::
  "('v \<Rightarrow> 'v \<Rightarrow> 's::linorder) \<Rightarrow> (api_request \<Rightarrow> error + string list)
     \<Rightarrow> (engine_request \<Rightarrow> error + generated) \<Rightarrow> 'v auto_model
     \<Rightarrow> string \<Rightarrow> bool \<Rightarrow> bool \<Rightarrow> int \<Rightarrow> rat \<Rightarrow> rat \<Rightarrow> int \<Rightarrow> stop_arg option \<Rightarrow> pyobj dict
     \<Rightarrow> (error + generated) \<times> backend_call list" where
  "generate cos_sim client engine self user_query use_optimized_prompt optimized_icl
       num_optimized_icl temperature top_p max_new_tokens stop kwargs =
     (if optimized_icl \<and> \<not> (num_optimized_icl > 0)
      then (Inl (AssertionError ''Number of ICL examples should be > 0''), [])
      else
        case prepare_system_prompt cos_sim self use_optimized_prompt optimized_icl
               num_optimized_icl user_query of
          Inl e \<Rightarrow> (Inl e, [])
        | Inr system_prompt \<Rightarrow>
            let user_prompt =
                  ''# Query:\<newline>'' @ user_query @ ''\<newline>\<newline># Answer:\<newline><START>''
            in case model self of
                 OpenAIChatModel m \<Rightarrow>
                   if repeats_keyword hosted_call_names kwargs
                   then (Inl (TypeError ''got multiple values for argument''), [])
                   else
                     let json_output =
                           (case map_of kwargs ''json_output'' of
                              None \<Rightarrow> False
                            | Some v \<Rightarrow> truthy v);
                         r = openai_generate client m (Some user_prompt) (Some system_prompt) None
                               temperature top_p max_new_tokens stop 1 json_output
                               ((''stream'', PBool False) # dict_remove ''json_output'' kwargs)
                     in (fst r, map ApiCall (snd r))
               | VLLMModel m \<Rightarrow>
                   (case tokenizer_getattr (tokenizer m) ''chat_tempalte'' of
                      Inl e \<Rightarrow> (Inl e, [])
                    | Inr chat_tempalte \<Rightarrow>
                        let prompt =
                              (if chat_tempalte \<noteq> None
                               then prepare_chat_llm_prompt (tokenizer m) system_prompt user_prompt
                               else system_prompt @ ''\<newline>\<newline>'' @ user_prompt);
                            request =
                              \<lparr>eng_prompt = prompt,
                               eng_temperature = temperature,
                               eng_top_p = top_p,
                               eng_max_new_tokens = max_new_tokens,
                               eng_stop = stop,
                               eng_extra = kwargs\<rparr>
                        in (case engine request of
                              Inl e \<Rightarrow> (Inl e, [EngineCall request])
                            | Inr text \<Rightarrow> (Inr text, [EngineCall request]))))"

section \<open>Sample data\<close>

text \<open>
  A small example set, an embedding (the length of the text) and a similarity (the negated
  distance of two lengths), a registry, a file system, two environments, a tokenizer without
  chat template and one with, two backends that answer every request, and an orchestrator for each
  backend variant.
\<close>

definition sample_examples :: "string dict" where
  "sample_examples = [(''ab'', ''x''), (''abcd'', ''y''), (''a'', ''z'')]"

definition sample_cos_sim :: "nat \<Rightarrow> nat \<Rightarrow> int" where
  "sample_cos_sim a b = - \<bar>int a - int b\<bar>"

definition sample_mapping :: "string dict" where
  "sample_mapping = [(''llama'', ''prompts/llama.pkl''), (''qwen'', ''prompts/qwen.pkl'')]"

definition nested_artifact :: pyobj where
  "nested_artifact =
     PObj [(''terminal_node'',
            PObj [(''state'',
                   PList [PObj [(''system_prompt'', PStr ''Be kind'')],
                          PObj [(''system_prompt'', PStr ''Be terse'')]])])]"

definition sample_fs :: "string \<Rightarrow> stored_file option" where
  "sample_fs path =
     (if path = ''prompts/llama.pkl'' then Some (Pickled nested_artifact)
      else if path = ''prompts/qwen.pkl'' then Some (Pickled (PStr ''Be brief''))
      else None)"

definition sample_env :: "string \<Rightarrow> string option" where
  "sample_env name = (if name = ''OPENAI_API_KEY'' then Some ''sk-test'' else None)"

definition empty_env :: "string \<Rightarrow> string option" where
  "empty_env name = None"

definition plain_tokenizer :: hf_tokenizer where
  "plain_tokenizer =
     \<lparr>attributes = [(''chat_template'', None)],
      apply_chat_template = (\<lambda>ms. concat (map content ms))\<rparr>"

definition chat_tokenizer :: hf_tokenizer where
  "chat_tokenizer =
     \<lparr>attributes = [(''chat_template'', Some ''jinja'')],
      apply_chat_template = (\<lambda>ms. concat (map content ms))\<rparr>"

definition sample_client :: "api_request \<Rightarrow> error + string list" where
  "sample_client request = Inr [''ok'']"

definition sample_engine :: "engine_request \<Rightarrow> error + generated" where
  "sample_engine request = Inr (Text ''ok'')"

definition sample_openai :: openai_chat_model where
  "sample_openai = \<lparr>model_name = ''gpt-4'', api_key = ''sk-test'', timeout = 600\<rparr>"

definition sample_hosted :: "nat auto_model" where
  "sample_hosted =
     \<lparr>icl_examples = sample_examples,
      embedding_model = length,
      icl_query_embeddings = compute_icl_query_embeddings length sample_examples,
      model = OpenAIChatModel sample_openai,
      optimized_prompt = default_prompt\<rparr>"

definition sample_self_hosted :: "hf_tokenizer \<Rightarrow> nat auto_model" where
  "sample_self_hosted tok =
     \<lparr>icl_examples = sample_examples,
      embedding_model = length,
      icl_query_embeddings = compute_icl_query_embeddings length sample_examples,
      model = VLLMModel \<lparr>vllm_model_name = ''mistral'', tokenizer = tok\<rparr>,
      optimized_prompt = default_prompt\<rparr>"

section \<open>Properties of the retriever\<close>

lemma dict_setitem_fresh:
  "k \<notin> set (dict_keys d) \<Longrightarrow> dict_setitem d k v = d @ [(k, v)]"
  by (induction d) (auto simp: dict_keys_def)

lemma fold_setitem_fresh:
  "distinct ks \<Longrightarrow> set ks \<inter> set (dict_keys acc) = {} \<Longrightarrow>
   fold (\<lambda>q d. dict_setitem d q (f q)) ks acc = acc @ map (\<lambda>q. (q, f q)) ks"
proof (induction ks arbitrary: acc)
  case Nil
  then show ?case by simp
next
  case (Cons q ks)
  from Cons.prems have fresh: "q \<notin> set (dict_keys acc)" by auto
  from Cons.prems have "set ks \<inter> set (dict_keys (acc @ [(q, f q)])) = {}"
    by (auto simp: dict_keys_def)
  with Cons.IH [of "acc @ [(q, f q)]"] Cons.prems fresh show ?case
    by (simp add: dict_setitem_fresh)
qed

lemma compute_icl_query_embeddings_eq:
  "distinct (dict_keys examples) \<Longrightarrow>
   compute_icl_query_embeddings encode examples
     = map (\<lambda>q. (q, encode q)) (dict_keys examples)"
  unfolding compute_icl_query_embeddings_def
  using fold_setitem_fresh [of "dict_keys examples" "[]" encode]
  by (simp add: dict_keys_def)

lemma comprehension_Inr:
  "(\<And>x. x \<in> set xs \<Longrightarrow> f x = Inr (g x)) \<Longrightarrow> comprehension f xs = Inr (map g xs)"
  by (induction xs) auto

lemma sorted_wrt_sort_reverse:
  "sorted_wrt (\<lambda>a b. f b \<le> f a) (sort_reverse f xs)"
proof -
  have "sorted (map f (sort_key f (rev xs)))" by simp
  then have "sorted_wrt (\<lambda>a b. f a \<le> f b) (sort_key f (rev xs))"
    by (simp add: sorted_wrt_map)
  then show ?thesis
    unfolding sort_reverse_def by (simp add: sorted_wrt_rev)
qed

lemma length_sort_reverse: "length (sort_reverse f xs) = length xs"
  by (simp add: sort_reverse_def)

lemma set_sort_reverse: "set (sort_reverse f xs) = set xs"
  by (simp add: sort_reverse_def)


lemma map_of_graph:
  "q \<in> set ks \<Longrightarrow> map_of (map (\<lambda>q. (q, f q)) ks) q = Some (f q)"
  by (induction ks) auto

lemma get_top_k_icl_examples_eq:
  assumes "distinct (dict_keys examples)"
  shows "get_top_k_icl_examples encode cos_sim
           (compute_icl_query_embeddings encode examples) query k
         = Inr (slice_to
                  (sort_reverse fst
                     (map (\<lambda>q. (cos_sim (encode q) (encode query), q)) (dict_keys examples)))
                  k)"
proof -
  let ?ks = "dict_keys examples"
  let ?emb = "map (\<lambda>q. (q, encode q)) ?ks"
  have emb: "compute_icl_query_embeddings encode examples = ?emb"
    using assms by (rule compute_icl_query_embeddings_eq)
  have keys: "dict_keys ?emb = ?ks"
    by (simp add: dict_keys_def comp_def)
  have get: "dict_getitem ?emb q = Inr (encode q)" if "q \<in> set ?ks" for q
    using that by (simp add: dict_getitem_def map_of_graph)
  have "comprehension
          (\<lambda>icl_query.
             case dict_getitem ?emb icl_query of
               Inl e \<Rightarrow> Inl e
             | Inr v \<Rightarrow> Inr (cos_sim v (encode query), icl_query)) ?ks
        = Inr (map (\<lambda>q. (cos_sim (encode q) (encode query), q)) ?ks)"
    by (rule comprehension_Inr) (simp add: get)
  then show ?thesis
    by (simp add: get_top_k_icl_examples_def emb keys)
qed

lemma distinct_sort_reverse: "distinct (sort_reverse f xs) = distinct xs"
  by (simp add: sort_reverse_def)

lemma distinct_map_snd_sort_reverse:
  "distinct (map snd xs) \<Longrightarrow> distinct (map snd (sort_reverse f xs))"
  by (simp add: distinct_map distinct_sort_reverse set_sort_reverse)

lemma sorted_wrt_take_dominates:
  assumes "sorted_wrt R xs" and "x \<in> set (take n xs)" and "y \<in> set xs"
    and "y \<notin> set (take n xs)"
  shows "R x y"
proof -
  have "sorted_wrt R (take n xs @ drop n xs)"
    using assms(1) by simp
  then have dom: "\<forall>a\<in>set (take n xs). \<forall>b\<in>set (drop n xs). R a b"
    unfolding sorted_wrt_append by blast
  have "set (take n xs @ drop n xs) = set xs"
    by simp
  then have "set xs = set (take n xs) \<union> set (drop n xs)"
    unfolding set_append by simp
  with assms(3,4) have "y \<in> set (drop n xs)"
    by blast
  with dom assms(2) show ?thesis
    by blast
qed

text \<open>
  C5. On the index built from an example set (nonempty or empty), the retriever with
  \<open>k \<ge> 1\<close> returns without raising exactly \<open>min(k, |ExampleSet|)\<close> pairs, in
  non-increasing order of similarity. Each pair is an example query of the set with the
  cosine similarity of its embedding and the embedding of the query; no example query is
  returned twice; and these are the top ones: an example query of the set that is not
  returned is at most as similar to the query as every pair returned.
\<close>

theorem top_k_length_sorted:
  assumes "distinct (dict_keys examples)" and "1 \<le> k"
  shows "\<exists>found. get_top_k_icl_examples encode cos_sim
                 (compute_icl_query_embeddings encode examples) query k = Inr found
           \<and> length found = min (nat k) (length examples)
           \<and> sorted_wrt (\<lambda>a b. fst b \<le> fst a) found
           \<and> set found \<subseteq> (\<lambda>q. (cos_sim (encode q) (encode query), q)) ` set (dict_keys examples)
           \<and> distinct (map snd found)
           \<and> (\<forall>q \<in> set (dict_keys examples). q \<notin> snd ` set found \<longrightarrow>
                (\<forall>p \<in> set found. cos_sim (encode q) (encode query) \<le> fst p))"
proof -
  let ?sims = "map (\<lambda>q. (cos_sim (encode q) (encode query), q)) (dict_keys examples)"
  let ?sorted = "sort_reverse fst ?sims"
  let ?found = "slice_to ?sorted k"
  have eq: "get_top_k_icl_examples encode cos_sim
              (compute_icl_query_embeddings encode examples) query k = Inr ?found"
    using assms(1) by (rule get_top_k_icl_examples_eq)
  have tk: "?found = take (nat k) ?sorted"
    using assms(2) by (simp add: slice_to_def)
  have len: "length ?found = min (nat k) (length examples)"
    unfolding tk by (simp add: length_sort_reverse dict_keys_def min.commute)
  have srt_all: "sorted_wrt (\<lambda>a b. fst b \<le> fst a) ?sorted"
    by (rule sorted_wrt_sort_reverse)
  have srt: "sorted_wrt (\<lambda>a b. fst b \<le> fst a) ?found"
    unfolding tk using srt_all by (rule sorted_wrt_take)
  have "set ?found \<subseteq> set ?sorted"
    unfolding tk by (rule set_take_subset)
  then have sub: "set ?found
      \<subseteq> (\<lambda>q. (cos_sim (encode q) (encode query), q)) ` set (dict_keys examples)"
    by (simp add: set_sort_reverse)
  have "map snd ?sims = dict_keys examples"
    by (simp add: comp_def)
  with assms(1) have "distinct (map snd ?sims)"
    by simp
  then have "distinct (map snd ?sorted)"
    by (rule distinct_map_snd_sort_reverse)
  then have "distinct (take (nat k) (map snd ?sorted))"
    by (rule distinct_take)
  then have dist: "distinct (map snd ?found)"
    unfolding tk by (simp add: take_map)
  have dom: "cos_sim (encode q) (encode query) \<le> fst p"
    if q: "q \<in> set (dict_keys examples)" and out: "q \<notin> snd ` set ?found"
      and p: "p \<in> set ?found" for q p
  proof -
    let ?y = "(cos_sim (encode q) (encode query), q)"
    from q have "?y \<in> set ?sims"
      by simp
    then have y_in: "?y \<in> set ?sorted"
      by (simp only: set_sort_reverse)
    have y_out: "?y \<notin> set (take (nat k) ?sorted)"
    proof
      assume "?y \<in> set (take (nat k) ?sorted)"
      then have "?y \<in> set ?found"
        by (simp only: tk)
      then have "snd ?y \<in> snd ` set ?found"
        by (rule imageI)
      with out show False
        by simp
    qed
    from p have p_in: "p \<in> set (take (nat k) ?sorted)"
      by (simp only: tk)
    from sorted_wrt_take_dominates [OF srt_all p_in y_in y_out]
    show ?thesis
      by simp
  qed
  from eq len srt sub dist dom show ?thesis
    by blast
qed

theorem top_k_length_sorted_witness:
  "distinct (dict_keys sample_examples) \<and> (1::int) \<le> 2
   \<and> (\<exists>found. get_top_k_icl_examples length sample_cos_sim
                (compute_icl_query_embeddings length sample_examples) ''abc'' 2 = Inr found
          \<and> length found = min (nat 2) (length sample_examples)
          \<and> sorted_wrt (\<lambda>a b. fst b \<le> fst a) found
          \<and> set found \<subseteq> (\<lambda>q. (sample_cos_sim (length q) (length ''abc''), q))
                         ` set (dict_keys sample_examples)
          \<and> distinct (map snd found)
          \<and> (\<forall>q \<in> set (dict_keys sample_examples). q \<notin> snd ` set found \<longrightarrow>
               (\<forall>p \<in> set found. sample_cos_sim (length q) (length ''abc'') \<le> fst p)))"
proof -
  have h1: "distinct (dict_keys sample_examples)"
    by (simp add: sample_examples_def dict_keys_def)
  have h2: "(1::int) \<le> 2" by simp
  have c: "\<exists>found. get_top_k_icl_examples length sample_cos_sim
                (compute_icl_query_embeddings length sample_examples) ''abc'' 2 = Inr found
          \<and> length found = min (nat 2) (length sample_examples)
          \<and> sorted_wrt (\<lambda>a b. fst b \<le> fst a) found
          \<and> set found \<subseteq> (\<lambda>q. (sample_cos_sim (length q) (length ''abc''), q))
                         ` set (dict_keys sample_examples)
          \<and> distinct (map snd found)
          \<and> (\<forall>q \<in> set (dict_keys sample_examples). q \<notin> snd ` set found \<longrightarrow>
               (\<forall>p \<in> set found. sample_cos_sim (length q) (length ''abc'') \<le> fst p))"
    by (rule top_k_length_sorted [OF h1 h2])
  from h1 h2 c show ?thesis by (intro conjI)
qed

section \<open>Properties of the orchestrator and of the hosted-API backend\<close>

text \<open>
  C4. A call of \<open>generate\<close> that requests optimized examples with
  \<open>num_optimized_icl \<le> 0\<close> fails on the assertion of line 155 (\<open>AssertionError\<close>, the
  invalid-argument condition of this code), and no call to either backend has been made.
\<close>

theorem generate_nonpositive_icl_fails:
  "optimized_icl \<Longrightarrow> num_optimized_icl \<le> 0 \<Longrightarrow>
   generate cos_sim client engine self user_query use_optimized_prompt optimized_icl
     num_optimized_icl temperature top_p max_new_tokens stop kwargs
   = (Inl (AssertionError ''Number of ICL examples should be > 0''), [])"
  by (simp add: generate_def)

theorem generate_nonpositive_icl_fails_witness:
  "(0::int) \<le> 0 \<and>
   generate sample_cos_sim sample_client sample_engine sample_hosted ''hi'' True True 0
     (7 / 10) (19 / 20) 512 None []
   = (Inl (AssertionError ''Number of ICL examples should be > 0''), [])"
  by (intro conjI generate_nonpositive_icl_fails) simp_all

text \<open>
  C8. For a model identifier that is not a key of the registry, the loader returns the
  literal \<open>You are a helpful assistant\<close> and has opened no file.
\<close>

theorem unregistered_model_default_prompt:
  "\<not> dict_contains name model_mapping \<Longrightarrow>
   load_optimized_prompt model_mapping fs name
   = (Inr (PStr ''You are a helpful assistant''), [])"
  by (simp add: load_optimized_prompt_def default_prompt_def)

theorem unregistered_model_default_prompt_witness:
  "\<not> dict_contains ''gpt-4'' sample_mapping \<and>
   load_optimized_prompt sample_mapping sample_fs ''gpt-4''
   = (Inr (PStr ''You are a helpful assistant''), [])"
proof -
  have h: "\<not> dict_contains ''gpt-4'' sample_mapping"
    by (simp add: dict_contains_def dict_keys_def sample_mapping_def)
  from h unregistered_model_default_prompt [OF h] show ?thesis by (intro conjI)
qed

text \<open>
  C9. Constructing the hosted-API backend without the variable \<open>OPENAI_API_KEY\<close> in the
  environment raises \<open>ValueError\<close> (the configuration error of this code) and has sent no
  request; with the variable set, construction succeeds and the model holds the credential.
\<close>

theorem openai_init_credential:
  "(env ''OPENAI_API_KEY'' = None \<longrightarrow>
      (\<exists>msg. openai_init env name tmo = (Inl (ValueError msg), [])))
   \<and> (\<forall>key. env ''OPENAI_API_KEY'' = Some key \<longrightarrow>
      openai_init env name tmo
      = (Inr \<lparr>model_name = name, api_key = key, timeout = tmo\<rparr>, []))"
  by (simp add: openai_init_def)

theorem openai_init_credential_witness:
  "empty_env ''OPENAI_API_KEY'' = None
   \<and> (\<exists>msg. openai_init empty_env ''gpt-4'' 600 = (Inl (ValueError msg), []))
   \<and> sample_env ''OPENAI_API_KEY'' = Some ''sk-test''
   \<and> openai_init sample_env ''gpt-4'' 600
     = (Inr \<lparr>model_name = ''gpt-4'', api_key = ''sk-test'', timeout = 600\<rparr>, [])"
proof -
  have h1: "empty_env ''OPENAI_API_KEY'' = None" by (simp add: empty_env_def)
  have h2: "sample_env ''OPENAI_API_KEY'' = Some ''sk-test''" by (simp add: sample_env_def)
  from h1 h2 openai_init_credential [of empty_env "''gpt-4''" 600]
    openai_init_credential [of sample_env "''gpt-4''" 600]
  show ?thesis by blast
qed

section \<open>Properties of the loader\<close>

lemma load_optimized_prompt_registered:
  "dict_contains name model_mapping \<Longrightarrow>
   load_optimized_prompt model_mapping fs name
   = (Inl (TypeError ''dict object is not callable''), [])"
  by (simp add: load_optimized_prompt_def dict_call_def)

lemma try_nested_system_prompt_fallback:
  "nested_system_prompt prompt_file = Inl e \<Longrightarrow>
   try_nested_system_prompt prompt_file = prompt_file"
  by (simp add: try_nested_system_prompt_def)

lemma try_nested_system_prompt_string:
  "try_nested_system_prompt (PStr s) = PStr s"
  by (simp add: try_nested_system_prompt_def nested_system_prompt_def getattr_def)

lemma try_nested_system_prompt_nested:
  "try_nested_system_prompt
     (PObj [(''terminal_node'',
             PObj [(''state'', PList (states @ [PObj [(''system_prompt'', p)]]))])])
   = p"
  by (simp add: try_nested_system_prompt_def nested_system_prompt_def getattr_def
      getitem_last_def)

text \<open>
  C1 says that for a model identifier of the registry the loader looks the identifier up,
  opens the path, deserializes the artifact into the prompt, and does not raise. The code
  does otherwise. Here the registry holds \<open>llama\<close>, a subscript would give its path, the
  file is there, and its artifact has the nested shape with the prompt \<open>Be terse\<close> in the
  last state; but line 81 calls the registry instead of indexing it, which raises
  \<open>TypeError\<close> before any file is opened.
\<close>

theorem registered_model_load_raises:
  "dict_contains ''llama'' sample_mapping
   \<and> dict_getitem sample_mapping ''llama'' = Inr ''prompts/llama.pkl''
   \<and> sample_fs ''prompts/llama.pkl'' = Some (Pickled nested_artifact)
   \<and> try_nested_system_prompt nested_artifact = PStr ''Be terse''
   \<and> load_optimized_prompt sample_mapping sample_fs ''llama''
     = (Inl (TypeError ''dict object is not callable''), [])"
  by (simp add: load_optimized_prompt_def dict_call_def dict_contains_def dict_keys_def
      dict_getitem_def sample_mapping_def sample_fs_def nested_artifact_def
      try_nested_system_prompt_def nested_system_prompt_def getattr_def getitem_last_def)

text \<open>
  C7 says that the loader first tries the nested \<open>system_prompt\<close> and, when that
  extraction fails, returns the whole deserialized artifact, so that a malformed artifact
  does not fail the load. The \<open>try\<close> block of lines 86--89 does this when it is given an
  artifact (the three lemmas above), but the load fails all the same. Here the artifact of
  \<open>qwen\<close> is a plain string, without the nested structure: the block would return the
  string itself, and the loader raises \<open>TypeError\<close> at line 81 without getting there.
\<close>

theorem malformed_artifact_load_raises:
  "dict_contains ''qwen'' sample_mapping
   \<and> sample_fs ''prompts/qwen.pkl'' = Some (Pickled (PStr ''Be brief''))
   \<and> try_nested_system_prompt (PStr ''Be brief'') = PStr ''Be brief''
   \<and> load_optimized_prompt sample_mapping sample_fs ''qwen''
     = (Inl (TypeError ''dict object is not callable''), [])"
  by (simp add: load_optimized_prompt_def dict_call_def dict_contains_def dict_keys_def
      sample_mapping_def sample_fs_def try_nested_system_prompt_def
      nested_system_prompt_def getattr_def)

section \<open>Properties of prompt assembly\<close>

lemma set_slice_to: "set (slice_to xs k) \<subseteq> set xs"
  by (simp add: slice_to_def set_take_subset)

lemma append_icl_blocks_eq:
  assumes "\<And>sq. sq \<in> set found \<Longrightarrow> map_of examples (snd sq) \<noteq> None"
  shows "append_icl_blocks examples found prompt
         = Inr (prompt
                @ concat (map (\<lambda>sq. ''\<newline>\<newline>#Query:\<newline>'' @ snd sq
                                     @ ''\<newline>\<newline>#Answer:\<newline>''
                                     @ the (map_of examples (snd sq))) found))"
  using assms
proof (induction found arbitrary: prompt)
  case Nil
  then show ?case by simp
next
  case (Cons a found)
  obtain s q where a: "a = (s, q)" by (cases a)
  from Cons.prems [of a] a obtain ans where ans: "map_of examples q = Some ans"
    by auto
  have rest: "map_of examples (snd sq) \<noteq> None" if "sq \<in> set found" for sq
    using that Cons.prems by simp
  show ?case
    using Cons.IH [OF rest] by (simp add: a dict_getitem_def ans)
qed

text \<open>
  C6. With the flag \<open>optimized_icl\<close> set, the system prompt is the base prompt (the
  optimized prompt, or the default when \<open>optimized_prompt\<close> is off) followed by one block
  per example that the retriever returned, in the retriever's order; the block of the
  example query \<open>q\<close> is the literal \<open>\n\n#Query:\n\<close>, \<open>q\<close>, \<open>\n\n#Answer:\n\<close> and the
  answer stored for \<open>q\<close> in the example set. This holds on an orchestrator whose embedding
  index was built from its example set.
\<close>

theorem system_prompt_icl_blocks:
  assumes "distinct (dict_keys (icl_examples self))"
    and "icl_query_embeddings self
         = compute_icl_query_embeddings (embedding_model self) (icl_examples self)"
  shows "\<exists>found. get_top_k_icl_examples (embedding_model self) cos_sim
                 (icl_query_embeddings self) user_query num_optimized_icl = Inr found
           \<and> (\<forall>sq \<in> set found. map_of (icl_examples self) (snd sq) \<noteq> None)
           \<and> prepare_system_prompt cos_sim self use_optimized_prompt True num_optimized_icl
               user_query
             = Inr ((if use_optimized_prompt then optimized_prompt self
                     else ''You are a helpful assistant'')
                    @ concat (map (\<lambda>sq. ''\<newline>\<newline>#Query:\<newline>'' @ snd sq
                                         @ ''\<newline>\<newline>#Answer:\<newline>''
                                         @ the (map_of (icl_examples self) (snd sq))) found))"
proof -
  let ?sims = "map (\<lambda>q. (cos_sim (embedding_model self q) (embedding_model self user_query), q))
                 (dict_keys (icl_examples self))"
  let ?found = "slice_to (sort_reverse fst ?sims) num_optimized_icl"
  have eq: "get_top_k_icl_examples (embedding_model self) cos_sim
              (icl_query_embeddings self) user_query num_optimized_icl = Inr ?found"
    unfolding assms(2) using assms(1) by (rule get_top_k_icl_examples_eq)
  have sub: "set ?found \<subseteq> set ?sims"
    using set_slice_to [of "sort_reverse fst ?sims" num_optimized_icl]
    by (simp add: set_sort_reverse)
  have keys: "map_of (icl_examples self) (snd sq) \<noteq> None" if "sq \<in> set ?found" for sq
  proof -
    from that sub have "sq \<in> set ?sims" by blast
    then obtain q where "q \<in> set (dict_keys (icl_examples self))" and "snd sq = q"
      by auto
    then show ?thesis
      by (simp add: map_of_eq_None_iff dict_keys_def)
  qed
  have "prepare_system_prompt cos_sim self use_optimized_prompt True num_optimized_icl
               user_query
             = Inr ((if use_optimized_prompt then optimized_prompt self
                     else ''You are a helpful assistant'')
                    @ concat (map (\<lambda>sq. ''\<newline>\<newline>#Query:\<newline>'' @ snd sq
                                         @ ''\<newline>\<newline>#Answer:\<newline>''
                                         @ the (map_of (icl_examples self) (snd sq))) ?found))"
    unfolding prepare_system_prompt_def Let_def eq
    using append_icl_blocks_eq [of ?found "icl_examples self", OF keys]
    by (simp add: default_prompt_def)
  with eq keys show ?thesis by blast
qed

theorem system_prompt_icl_blocks_witness:
  "distinct (dict_keys (icl_examples sample_hosted))
   \<and> icl_query_embeddings sample_hosted
     = compute_icl_query_embeddings (embedding_model sample_hosted) (icl_examples sample_hosted)
   \<and> (\<exists>found. get_top_k_icl_examples (embedding_model sample_hosted) sample_cos_sim
                 (icl_query_embeddings sample_hosted) ''abc'' 2 = Inr found
           \<and> (\<forall>sq \<in> set found. map_of (icl_examples sample_hosted) (snd sq) \<noteq> None)
           \<and> prepare_system_prompt sample_cos_sim sample_hosted False True 2 ''abc''
             = Inr ((if False then optimized_prompt sample_hosted
                     else ''You are a helpful assistant'')
                    @ concat (map (\<lambda>sq. ''\<newline>\<newline>#Query:\<newline>'' @ snd sq
                                         @ ''\<newline>\<newline>#Answer:\<newline>''
                                         @ the (map_of (icl_examples sample_hosted) (snd sq)))
                                found)))"
proof -
  have h1: "distinct (dict_keys (icl_examples sample_hosted))"
    by (simp add: sample_hosted_def sample_examples_def dict_keys_def)
  have h2: "icl_query_embeddings sample_hosted
     = compute_icl_query_embeddings (embedding_model sample_hosted) (icl_examples sample_hosted)"
    by (simp add: sample_hosted_def)
  from h1 h2 system_prompt_icl_blocks [OF h1 h2, of sample_cos_sim "''abc''" 2 False]
  show ?thesis by (intro conjI)
qed

section \<open>Properties of dispatch\<close>

lemma generate_self_hosted_without_attribute:
  assumes "model self = VLLMModel m"
    and "map_of (attributes (tokenizer m)) ''chat_tempalte'' = None"
    and "\<not> optimized_icl"
  shows "generate cos_sim client engine self user_query use_optimized_prompt optimized_icl
           num_optimized_icl temperature top_p max_new_tokens stop kwargs
         = (Inl (AttributeError ''chat_tempalte''), [])"
  using assms
  by (simp add: generate_def prepare_system_prompt_def tokenizer_getattr_def)

text \<open>
  C2 says that a call routed to the self-hosted backend sends the templated two-message
  conversation when the tokenizer has a chat template, and otherwise the system prompt, a
  blank line and the user turn. The code does neither. Here are two such calls, one with
  a tokenizer whose \<open>chat_template\<close> is \<open>None\<close> and one with a tokenizer that has a chat
  template. Line 170 reads the attribute \<open>chat_tempalte\<close>, which neither tokenizer has:
  both calls raise \<open>AttributeError\<close>, and nothing is sent to the backend.
\<close>

theorem chat_template_attribute_misspelled:
  "tokenizer_getattr plain_tokenizer ''chat_template'' = Inr None
   \<and> generate sample_cos_sim sample_client sample_engine (sample_self_hosted plain_tokenizer)
       ''hi'' False False 3 (7 / 10) (19 / 20) 512 None []
     = (Inl (AttributeError ''chat_tempalte''), [])
   \<and> tokenizer_getattr chat_tokenizer ''chat_template'' = Inr (Some ''jinja'')
   \<and> generate sample_cos_sim sample_client sample_engine (sample_self_hosted chat_tokenizer)
       ''hi'' False False 3 (7 / 10) (19 / 20) 512 None []
     = (Inl (AttributeError ''chat_tempalte''), [])"
  by (simp add: generate_def prepare_system_prompt_def tokenizer_getattr_def
      sample_self_hosted_def plain_tokenizer_def chat_tokenizer_def)

text \<open>
  C3, as stated, fails: a request to the hosted-API backend with temperature \<open>-1\<close> and
  \<open>top_p = 2\<close> is sent to the API with these values and returns the text of the response.
\<close>

theorem invalid_sampling_parameters_accepted:
  "(- 1 :: rat) < 0 \<and> (1 :: rat) < 2
   \<and> openai_generate sample_client sample_openai (Some ''hi'') None None (- 1) 2 512 None 1
       False []
     = (Inr (Text ''ok''),
        [\<lparr>req_model = ''gpt-4'',
          req_messages = [\<lparr>role = ''user'', content = ''hi''\<rparr>],
          req_temperature = - 1,
          req_max_tokens = 512,
          req_top_p = 2,
          req_n = 1,
          req_stop = None,
          req_response_format = None,
          req_seed = 0,
          req_extra = []\<rparr>])"
  by (simp add: openai_generate_def build_messages_def repeats_keyword_def dict_keys_def
      sample_client_def sample_openai_def)

text \<open>
  C3, amended. The hosted-API backend does not check temperature or \<open>top_p\<close>. Whenever a
  prompt or a message sequence is given and no keyword is repeated, it sends exactly one
  request, which carries the given temperature and \<open>top_p\<close> unchanged; an exception of the
  API client is the result of the call, and a response with at least one choice gives a
  result.
\<close>

theorem openai_generate_forwards_sampling:
  assumes "user_prompt \<noteq> None \<or> msgs \<noteq> None"
    and "\<not> repeats_keyword create_keywords kwargs"
  shows "\<exists>request.
           snd (openai_generate client self user_prompt system_prompt msgs temperature top_p
                  max_new_tokens stop n json_output kwargs) = [request]
           \<and> req_temperature request = temperature
           \<and> req_top_p request = top_p
           \<and> (\<forall>e. client request = Inl e \<longrightarrow>
                 fst (openai_generate client self user_prompt system_prompt msgs temperature
                        top_p max_new_tokens stop n json_output kwargs) = Inl e)
           \<and> (\<forall>choices. client request = Inr choices \<longrightarrow> choices \<noteq> [] \<longrightarrow>
                 (\<exists>text. fst (openai_generate client self user_prompt system_prompt msgs
                                temperature top_p max_new_tokens stop n json_output kwargs)
                         = Inr text))"
proof -
  from assms(1) have "\<exists>ms. build_messages user_prompt system_prompt msgs = Inr ms"
    by (cases msgs; cases user_prompt; cases system_prompt) (simp_all add: build_messages_def)
  then obtain ms where ms: "build_messages user_prompt system_prompt msgs = Inr ms" ..
  show ?thesis
    using assms
    by (auto simp: openai_generate_def ms Let_def split: sum.splits list.splits)
qed

theorem openai_generate_forwards_sampling_witness:
  "Some ''hi'' \<noteq> (None :: string option)
   \<and> \<not> repeats_keyword create_keywords []
   \<and> (\<exists>request.
           snd (openai_generate sample_client sample_openai (Some ''hi'') None None (- 1) 2
                  512 None 1 False []) = [request]
           \<and> req_temperature request = - 1
           \<and> req_top_p request = 2
           \<and> (\<forall>e. sample_client request = Inl e \<longrightarrow>
                 fst (openai_generate sample_client sample_openai (Some ''hi'') None None (- 1)
                        2 512 None 1 False []) = Inl e)
           \<and> (\<forall>choices. sample_client request = Inr choices \<longrightarrow> choices \<noteq> [] \<longrightarrow>
                 (\<exists>text. fst (openai_generate sample_client sample_openai (Some ''hi'') None
                                None (- 1) 2 512 None 1 False [])
                         = Inr text)))"
proof -
  have h0: "Some ''hi'' \<noteq> (None :: string option)"
    by simp
  then have h1: "Some ''hi'' \<noteq> None \<or> (None :: chat_message list option) \<noteq> None"
    by simp
  have h2: "\<not> repeats_keyword create_keywords []"
    by (simp add: repeats_keyword_def dict_keys_def)
  note c = openai_generate_forwards_sampling [OF h1 h2, of sample_client sample_openai None
      "- 1" 2 512 None 1 False]
  show ?thesis
    by (rule conjI [OF h0 conjI [OF h2 c]])
qed

text \<open>
  C10. When a message sequence is supplied, the result and the requests sent are those of
  the same call without \<open>user_prompt\<close> and \<open>system_prompt\<close>, and every request sent (there
  is exactly one unless a keyword is repeated) carries the supplied sequence unchanged.
  The messages are built from the prompts only when no sequence is supplied: system and
  user message when both prompts are given, the user message alone otherwise.
\<close>

theorem openai_generate_supplied_messages:
  "openai_generate client self user_prompt system_prompt (Some ms) temperature top_p
     max_new_tokens stop n json_output kwargs
   = openai_generate client self None None (Some ms) temperature top_p
       max_new_tokens stop n json_output kwargs
   \<and> (\<forall>request \<in> set (snd (openai_generate client self user_prompt system_prompt (Some ms)
                             temperature top_p max_new_tokens stop n json_output kwargs)).
        req_messages request = ms)
   \<and> (\<not> repeats_keyword create_keywords kwargs \<longrightarrow>
        length (snd (openai_generate client self user_prompt system_prompt (Some ms)
                       temperature top_p max_new_tokens stop n json_output kwargs)) = 1)
   \<and> (\<forall>request \<in> set (snd (openai_generate client self (Some u) system_prompt None
                             temperature top_p max_new_tokens stop n json_output kwargs)).
        req_messages request
        = (case system_prompt of
             Some sp \<Rightarrow> [\<lparr>role = ''system'', content = sp\<rparr>, \<lparr>role = ''user'', content = u\<rparr>]
           | None \<Rightarrow> [\<lparr>role = ''user'', content = u\<rparr>]))"
  by (auto simp: openai_generate_def build_messages_def Let_def
      split: sum.splits list.splits option.splits)

theorem openai_generate_supplied_messages_witness:
  "\<not> repeats_keyword create_keywords []
   \<and> snd (openai_generate sample_client sample_openai (Some ''unused'') (Some ''be brief'')
          (Some [\<lparr>role = ''user'', content = ''hello''\<rparr>]) 0 1 512 None 1 False [])
     = [\<lparr>req_model = ''gpt-4'',
         req_messages = [\<lparr>role = ''user'', content = ''hello''\<rparr>],
         req_temperature = 0,
         req_max_tokens = 512,
         req_top_p = 1,
         req_n = 1,
         req_stop = None,
         req_response_format = None,
         req_seed = 0,
         req_extra = []\<rparr>]
   \<and> snd (openai_generate sample_client sample_openai (Some ''hello'') (Some ''be brief'') None
          0 1 512 None 1 False []) \<noteq> []
   \<and> openai_generate sample_client sample_openai (Some ''unused'') (Some ''be brief'')
          (Some [\<lparr>role = ''user'', content = ''hello''\<rparr>]) 0 1 512 None 1 False []
     = openai_generate sample_client sample_openai None None
          (Some [\<lparr>role = ''user'', content = ''hello''\<rparr>]) 0 1 512 None 1 False []
   \<and> req_messages (hd (snd (openai_generate sample_client sample_openai (Some ''unused'') (Some ''be brief'')
          (Some [\<lparr>role = ''user'', content = ''hello''\<rparr>]) 0 1 512 None 1 False [])))
     = [\<lparr>role = ''user'', content = ''hello''\<rparr>]
   \<and> length (snd (openai_generate sample_client sample_openai (Some ''unused'') (Some ''be brief'')
          (Some [\<lparr>role = ''user'', content = ''hello''\<rparr>]) 0 1 512 None 1 False [])) = 1
   \<and> req_messages (hd (snd (openai_generate sample_client sample_openai (Some ''hello'') (Some ''be brief'') None
          0 1 512 None 1 False [])))
     = [\<lparr>role = ''system'', content = ''be brief''\<rparr>,
        \<lparr>role = ''user'', content = ''hello''\<rparr>]"
proof -
  have h1: "\<not> repeats_keyword create_keywords []"
    by (simp add: repeats_keyword_def dict_keys_def)
  have h2: "snd (openai_generate sample_client sample_openai (Some ''unused'') (Some ''be brief'')
          (Some [\<lparr>role = ''user'', content = ''hello''\<rparr>]) 0 1 512 None 1 False [])
     = [\<lparr>req_model = ''gpt-4'',
         req_messages = [\<lparr>role = ''user'', content = ''hello''\<rparr>],
         req_temperature = 0,
         req_max_tokens = 512,
         req_top_p = 1,
         req_n = 1,
         req_stop = None,
         req_response_format = None,
         req_seed = 0,
         req_extra = []\<rparr>]"
    by (simp add: openai_generate_def build_messages_def repeats_keyword_def dict_keys_def
        sample_client_def sample_openai_def)
  have h3: "snd (openai_generate sample_client sample_openai (Some ''hello'') (Some ''be brief'') None
          0 1 512 None 1 False []) \<noteq> []"
    by (simp add: openai_generate_def build_messages_def repeats_keyword_def dict_keys_def
        sample_client_def sample_openai_def)
  note c = openai_generate_supplied_messages [of sample_client sample_openai
      "Some ''unused''" "Some ''be brief''" "[\<lparr>role = ''user'', content = ''hello''\<rparr>]"
      0 1 512 None 1 False "[]" "''hello''"]
  note c1 = c [THEN conjunct1]
  note c2 = c [THEN conjunct2, THEN conjunct1]
  note c3 = c [THEN conjunct2, THEN conjunct2, THEN conjunct1]
  note c4 = c [THEN conjunct2, THEN conjunct2, THEN conjunct2]
  have m2: "hd (snd (openai_generate sample_client sample_openai (Some ''unused'') (Some ''be brief'')
          (Some [\<lparr>role = ''user'', content = ''hello''\<rparr>]) 0 1 512 None 1 False []))
      \<in> set (snd (openai_generate sample_client sample_openai (Some ''unused'') (Some ''be brief'')
          (Some [\<lparr>role = ''user'', content = ''hello''\<rparr>]) 0 1 512 None 1 False []))"
    unfolding h2 by simp
  have m4: "hd (snd (openai_generate sample_client sample_openai (Some ''hello'') (Some ''be brief'') None
          0 1 512 None 1 False []))
      \<in> set (snd (openai_generate sample_client sample_openai (Some ''hello'') (Some ''be brief'') None
          0 1 512 None 1 False []))"
    using h3 by (rule hd_in_set)
  have r2: "req_messages (hd (snd (openai_generate sample_client sample_openai (Some ''unused'') (Some ''be brief'')
          (Some [\<lparr>role = ''user'', content = ''hello''\<rparr>]) 0 1 512 None 1 False [])))
     = [\<lparr>role = ''user'', content = ''hello''\<rparr>]"
    by (rule bspec [OF c2 m2])
  have r3: "length (snd (openai_generate sample_client sample_openai (Some ''unused'') (Some ''be brief'')
          (Some [\<lparr>role = ''user'', content = ''hello''\<rparr>]) 0 1 512 None 1 False [])) = 1"
    using c3 h1 by (rule mp)
  have r4: "req_messages (hd (snd (openai_generate sample_client sample_openai (Some ''hello'') (Some ''be brief'') None
          0 1 512 None 1 False [])))
     = [\<lparr>role = ''system'', content = ''be brief''\<rparr>,
        \<lparr>role = ''user'', content = ''hello''\<rparr>]"
    using bspec [OF c4 m4] by simp
  show ?thesis
    by (rule conjI [OF h1 conjI [OF h2 conjI [OF h3 conjI [OF c1 conjI [OF r2 conjI [OF r3 r4]]]]]])
qed

end
